theory Spec2Isabelle
  imports Complex_Main "HOL-Library.AList"
begin

section \<open>Values read from definition files\<close>

text \<open>
  \<^verbatim>\<open>json.load(f, object_pairs_hook=collections.OrderedDict)\<close> yields nested Python
  values. An object is an ordered list of pairs (the order of declaration is kept), a
  finite float is the rational number it denotes, and Python's \<^verbatim>\<open>None\<close> is \<open>JNull\<close>.
\<close>

datatype jvalue =
    JNull
  | JBool bool
  | JInt int
  | JFloat rat
  | JStr string
  | JArr "jvalue list"
  | JObj "(string \<times> jvalue) list"

type_synonym jobject = "(string \<times> jvalue) list"

text \<open>
  The exceptions the modelled code can raise. \<open>InvalidFileError\<close> and
  \<open>InvalidVersionError\<close> are those of \<^verbatim>\<open>UM.Settings.SettingsError\<close> and carry the file name;
  the others are Python's own, the last two those of \<^verbatim>\<open>configparser\<close>.
\<close>

datatype error =
    InvalidFileError string
  | InvalidVersionError string
  | FileNotFoundError
  | AttributeError
  | TypeError
  | ValueError
  | RecursionError
  | ParsingError
  | InterpolationError

text \<open>The classification a validator returns (\<^verbatim>\<open>UM.Settings.Validators.ResultCodes\<close>).\<close>

datatype ResultCodes =
    success
  | min_value_warning
  | max_value_warning
  | min_value_error
  | max_value_error

section \<open>Setting, SettingsCategory and Profile\<close>

text \<open>
  Modelled from the spec: the classes \<^verbatim>\<open>Setting\<close>, \<^verbatim>\<open>SettingsCategory\<close> and \<^verbatim>\<open>Profile\<close>
  (\<^verbatim>\<open>UM/Settings/Setting.py\<close>, \<^verbatim>\<open>SettingsCategory.py\<close>, \<^verbatim>\<open>Profile.py\<close>) are not among the
  sources. A setting has an immutable key, a current value and its structural fields
  (default value, type, bounds, visibility), which a definition fragment overwrites field
  by field where the fragment gives the field; a freshly created setting has every
  structural field unset. A category has a key, its own fields and an ordered list of
  the settings it owns. A profile is a name and a sparse mapping from setting keys to
  values. An object of these classes is true in a condition (\<^verbatim>\<open>if setting:\<close>,
  \<^verbatim>\<open>if profile:\<close>), and \<^verbatim>\<open>None\<close> is not. \<^verbatim>\<open>Profile.setSettingValue\<close> stores a value
  under a key.
\<close>

record Setting =
  setting_key :: string
  setting_fields :: jobject
  setting_value :: jvalue

record SettingsCategory =
  category_key :: string
  category_fields :: jobject
  category_settings :: "Setting list"

record Profile =
  profile_name :: string
  changed_settings :: "(string \<times> jvalue) list"

definition Profile_setSettingValue :: "string \<Rightarrow> jvalue \<Rightarrow> Profile \<Rightarrow> Profile" where
  "Profile_setSettingValue k v p = p\<lparr>changed_settings := AList.update k v (changed_settings p)\<rparr>"

definition Setting_new :: "string \<Rightarrow> Setting" where
  "Setting_new k = \<lparr>setting_key = k, setting_fields = [], setting_value = JNull\<rparr>"

definition SettingsCategory_new :: "string \<Rightarrow> SettingsCategory" where
  "SettingsCategory_new k = \<lparr>category_key = k, category_fields = [], category_settings = []\<rparr>"

definition Setting_getDefaultValue :: "Setting \<Rightarrow> jvalue" where
  "Setting_getDefaultValue s =
     (case map_of (setting_fields s) ''default'' of None \<Rightarrow> JNull | Some v \<Rightarrow> v)"

definition Setting_getValue :: "Setting \<Rightarrow> jvalue" where
  "Setting_getValue s = setting_value s"

definition Setting_setValue :: "jvalue \<Rightarrow> Setting \<Rightarrow> Setting" where
  "Setting_setValue v s = s\<lparr>setting_value := v\<rparr>"

definition Setting_isVisible :: "Setting \<Rightarrow> bool" where
  "Setting_isVisible s =
     (case map_of (setting_fields s) ''visible'' of Some (JBool b) \<Rightarrow> b | _ \<Rightarrow> True)"

definition Setting_getSettingByKey :: "Setting \<Rightarrow> string \<Rightarrow> Setting option" where
  "Setting_getSettingByKey s k = (if setting_key s = k then Some s else None)"

text \<open>
  The loop shared by the lookups:
  \<^verbatim>\<open>for setting in settings: r = setting.getSettingByKey(key); if r is not None: return r\<close>.
\<close>

fun first_setting :: "Setting list \<Rightarrow> string \<Rightarrow> Setting option" where
  "first_setting [] k = None"
| "first_setting (s # ss) k =
     (case Setting_getSettingByKey s k of
        Some r \<Rightarrow> Some r
      | None \<Rightarrow> first_setting ss k)"

definition SettingsCategory_getSettingByKey :: "SettingsCategory \<Rightarrow> string \<Rightarrow> Setting option" where
  "SettingsCategory_getSettingByKey c k = first_setting (category_settings c) k"

definition SettingsCategory_getAllSettings :: "SettingsCategory \<Rightarrow> Setting list" where
  "SettingsCategory_getAllSettings c = category_settings c"

text \<open>
  A fragment overwrites the fields it gives and keeps the others. A fragment that is not
  an object cannot be read field by field.
\<close>

definition Setting_fillByDict :: "jvalue \<Rightarrow> Setting \<Rightarrow> error + Setting" where
  "Setting_fillByDict frag s =
     (case frag of
        JObj kvs \<Rightarrow> Inr (s\<lparr>setting_fields := fold (\<lambda>(k, v). AList.update k v) kvs (setting_fields s)\<rparr>)
      | _ \<Rightarrow> Inl TypeError)"

text \<open>The setting objects are mutated in place: the first setting with the key is the one replaced.\<close>

fun replace_setting :: "string \<Rightarrow> Setting \<Rightarrow> Setting list \<Rightarrow> Setting list" where
  "replace_setting k s' [] = []"
| "replace_setting k s' (s # ss) =
     (if setting_key s = k then s' # ss else s # replace_setting k s' ss)"

text \<open>
  The settings of a category fragment are found in the category or created at its end,
  then filled, in the order the fragment declares them.
\<close>

fun fill_settings :: "(string \<times> jvalue) list \<Rightarrow> Setting list \<Rightarrow> error + Setting list" where
  "fill_settings [] ss = Inr ss"
| "fill_settings ((k, v) # kvs) ss =
     (case first_setting ss k of
        None \<Rightarrow>
          (case Setting_fillByDict v (Setting_new k) of
             Inl e \<Rightarrow> Inl e
           | Inr s' \<Rightarrow> fill_settings kvs (ss @ [s']))
      | Some s \<Rightarrow>
          (case Setting_fillByDict v s of
             Inl e \<Rightarrow> Inl e
           | Inr s' \<Rightarrow> fill_settings kvs (replace_setting k s' ss)))"

fun SettingsCategory_fill :: "(string \<times> jvalue) list \<Rightarrow> SettingsCategory \<Rightarrow> error + SettingsCategory" where
  "SettingsCategory_fill [] c = Inr c"
| "SettingsCategory_fill ((k, v) # kvs) c =
     (if k = ''settings'' then
        (case v of
           JObj svs \<Rightarrow>
             (case fill_settings svs (category_settings c) of
                Inl e \<Rightarrow> Inl e
              | Inr ss \<Rightarrow> SettingsCategory_fill kvs (c\<lparr>category_settings := ss\<rparr>))
         | _ \<Rightarrow> Inl AttributeError)
      else SettingsCategory_fill kvs (c\<lparr>category_fields := AList.update k v (category_fields c)\<rparr>))"

definition SettingsCategory_fillByDict :: "jvalue \<Rightarrow> SettingsCategory \<Rightarrow> error + SettingsCategory" where
  "SettingsCategory_fillByDict frag c =
     (case frag of JObj kvs \<Rightarrow> SettingsCategory_fill kvs c | _ \<Rightarrow> Inl TypeError)"

section \<open>MachineSettings\<close>

text \<open>
  The attributes of \<^verbatim>\<open>MachineSettings.__init__\<close>, without the leading underscore.
  \<open>icon\<close> starts as the one-element tuple the trailing comma of its initialiser makes.
  \<open>onSettingChanged_connected\<close> records whether \<^verbatim>\<open>_onSettingChanged\<close> is connected to
  \<^verbatim>\<open>settingChanged\<close>.
\<close>

record MachineSettings =
  categories :: "SettingsCategory list"
  platform_mesh :: jvalue
  platform_texture :: jvalue
  name :: string
  type_name :: jvalue
  type_id :: jvalue
  type_version :: string
  json_file :: string
  icon :: jvalue
  machine_settings :: "Setting list"
  i18n_catalog :: "string option"
  active_profile :: "Profile option"
  onSettingChanged_connected :: bool

definition MachineDefinitionVersion :: int where
  "MachineDefinitionVersion = 1"


definition MachineSettings_init :: MachineSettings where
  "MachineSettings_init =
     \<lparr>categories = [], platform_mesh = JNull, platform_texture = JNull,
      name = ''Unknown Machine'', type_name = JStr ''Unknown'', type_id = JStr ''unknown'',
      type_version = ''unknown'', json_file = '''', icon = JArr [JStr ''unknown.png''],
      machine_settings = [], i18n_catalog = None, active_profile = None,
      onSettingChanged_connected = False\<rparr>"

fun getSettingsCategory_loop :: "SettingsCategory list \<Rightarrow> string \<Rightarrow> SettingsCategory option" where
  "getSettingsCategory_loop [] k = None"
| "getSettingsCategory_loop (c # cs) k =
     (if category_key c = k then Some c else getSettingsCategory_loop cs k)"

definition getSettingsCategory :: "MachineSettings \<Rightarrow> string \<Rightarrow> SettingsCategory option" where
  "getSettingsCategory ms k = getSettingsCategory_loop (categories ms) k"

definition getAllSettings :: "MachineSettings \<Rightarrow> bool \<Rightarrow> bool \<Rightarrow> Setting list" where
  "getAllSettings ms include_machine visible_only =
     (let all_settings =
            (if include_machine then machine_settings ms else []) @
            concat (map SettingsCategory_getAllSettings (categories ms))
      in if visible_only then filter Setting_isVisible all_settings else all_settings)"

fun categories_setting :: "SettingsCategory list \<Rightarrow> string \<Rightarrow> Setting option" where
  "categories_setting [] k = None"
| "categories_setting (c # cs) k =
     (case SettingsCategory_getSettingByKey c k of
        Some s \<Rightarrow> Some s
      | None \<Rightarrow> categories_setting cs k)"

definition getSettingByKey :: "MachineSettings \<Rightarrow> string \<Rightarrow> Setting option" where
  "getSettingByKey ms k =
     (case categories_setting (categories ms) k of
        Some s \<Rightarrow> Some s
      | None \<Rightarrow> first_setting (machine_settings ms) k)"

text \<open>
  Writing through the reference \<open>getSettingByKey\<close> returned: the setting it found, in the
  first category that has the key, else among the machine settings, is replaced.
\<close>

fun replace_in_categories :: "string \<Rightarrow> Setting \<Rightarrow> SettingsCategory list \<Rightarrow> SettingsCategory list" where
  "replace_in_categories k s' [] = []"
| "replace_in_categories k s' (c # cs) =
     (case SettingsCategory_getSettingByKey c k of
        Some s \<Rightarrow> c\<lparr>category_settings := replace_setting k s' (category_settings c)\<rparr> # cs
      | None \<Rightarrow> c # replace_in_categories k s' cs)"

definition store_setting :: "string \<Rightarrow> Setting \<Rightarrow> MachineSettings \<Rightarrow> MachineSettings" where
  "store_setting k s' ms =
     (case categories_setting (categories ms) k of
        Some s \<Rightarrow> ms\<lparr>categories := replace_in_categories k s' (categories ms)\<rparr>
      | None \<Rightarrow> ms\<lparr>machine_settings := replace_setting k s' (machine_settings ms)\<rparr>)"

text \<open>
  \<^verbatim>\<open>_onSettingChanged\<close> (lines 41-43) records the value of a changed setting in the active
  profile, when there is one.
\<close>

definition onSettingChanged :: "Setting \<Rightarrow> MachineSettings \<Rightarrow> MachineSettings" where
  "onSettingChanged s ms =
     (case active_profile ms of
        None \<Rightarrow> ms
      | Some p \<Rightarrow>
          ms\<lparr>active_profile := Some (Profile_setSettingValue (setting_key s) (Setting_getValue s) p)\<rparr>)"

text \<open>
  \<^verbatim>\<open>setting.setValue(value)\<close> on the setting found. Whether that call makes the setting's
  \<^verbatim>\<open>valueChanged\<close> reach this machine's \<^verbatim>\<open>settingChanged\<close> is decided by \<^verbatim>\<open>Setting.setValue\<close>
  and by the wiring of lines 128 and 229 through \<^verbatim>\<open>UM.Signal\<close>, neither among the sources:
  \<open>notifies s v\<close> is a parameter. When the signal arrives and \<^verbatim>\<open>_onSettingChanged\<close> is
  connected, the value is written back into the active profile.
\<close>

definition setSettingValueByKey ::
  "(Setting \<Rightarrow> jvalue \<Rightarrow> bool) \<Rightarrow> string \<Rightarrow> jvalue \<Rightarrow> MachineSettings \<Rightarrow> MachineSettings" where
  "setSettingValueByKey notifies k v ms =
     (case getSettingByKey ms k of
        Some s \<Rightarrow>
          (let ms' = store_setting k (Setting_setValue v s) ms
           in if notifies s v \<and> onSettingChanged_connected ms'
              then onSettingChanged (Setting_setValue v s) ms'
              else ms')
      | None \<Rightarrow> ms)"

definition getSettingValueByKey :: "MachineSettings \<Rightarrow> string \<Rightarrow> jvalue" where
  "getSettingValueByKey ms k =
     (case getSettingByKey ms k of
        Some s \<Rightarrow> Setting_getValue s
      | None \<Rightarrow> JNull)"

text \<open>
  \<open>validate\<close> is the validator of \<^verbatim>\<open>Setting.validate\<close>, which is not among the sources: the
  scans take it as a parameter. Each scan returns at the first setting that matches.
\<close>

fun hasErrorValue_loop :: "(Setting \<Rightarrow> ResultCodes) \<Rightarrow> Setting list \<Rightarrow> bool" where
  "hasErrorValue_loop validate [] = False"
| "hasErrorValue_loop validate (s # ss) =
     (let result = validate s
      in if result = max_value_error \<or> result = min_value_error then True
         else hasErrorValue_loop validate ss)"

definition hasErrorValue :: "(Setting \<Rightarrow> ResultCodes) \<Rightarrow> MachineSettings \<Rightarrow> bool" where
  "hasErrorValue validate ms = hasErrorValue_loop validate (getAllSettings ms False False)"

fun hasWarningValue_loop :: "(Setting \<Rightarrow> ResultCodes) \<Rightarrow> Setting list \<Rightarrow> bool" where
  "hasWarningValue_loop validate [] = False"
| "hasWarningValue_loop validate (s # ss) =
     (let result = validate s
      in if result = max_value_warning \<or> result = min_value_warning then True
         else hasWarningValue_loop validate ss)"

definition hasWarningValue :: "(Setting \<Rightarrow> ResultCodes) \<Rightarrow> MachineSettings \<Rightarrow> bool" where
  "hasWarningValue validate ms = hasWarningValue_loop validate (getAllSettings ms False False)"


section \<open>Profile activation\<close>

text \<open>
  \<^verbatim>\<open>setActiveProfile\<close> looks each stored key up with \<^verbatim>\<open>self.getSetting(setting_key)\<close>.
  \<^verbatim>\<open>MachineSettings\<close> defines no method of that name (its lookup is \<open>getSettingByKey\<close>), and
  its base class \<^verbatim>\<open>SignalEmitter\<close> only sets up the signals: the attribute lookup raises
  \<^verbatim>\<open>AttributeError\<close> before any key is looked at.
\<close>

definition getSetting :: "MachineSettings \<Rightarrow> string \<Rightarrow> error + Setting option" where
  "getSetting ms k = Inl AttributeError"

text \<open>
  \<^verbatim>\<open>for setting in self.getAllSettings(): setting.setValue(setting.getDefaultValue())\<close>:
  \<open>getAllSettings\<close> is called with its defaults, so the settings reset are those of the
  categories. No value set here or in the loop after it is written back into a profile:
  when a profile is active, \<^verbatim>\<open>_onSettingChanged\<close> has just been disconnected, and when
  none is, \<^verbatim>\<open>_onSettingChanged\<close> does nothing.
\<close>

definition reset_category :: "SettingsCategory \<Rightarrow> SettingsCategory" where
  "reset_category c =
     c\<lparr>category_settings :=
         map (\<lambda>s. Setting_setValue (Setting_getDefaultValue s) s) (category_settings c)\<rparr>"

definition reset_to_default :: "MachineSettings \<Rightarrow> MachineSettings" where
  "reset_to_default ms = ms\<lparr>categories := map reset_category (categories ms)\<rparr>"

text \<open>
  \<^verbatim>\<open>for setting_key in changed_settings: ...\<close>. An exception leaves the loop with the
  state as it is at that point.
\<close>

fun apply_changed_settings ::
  "(string \<times> jvalue) list \<Rightarrow> MachineSettings \<Rightarrow> error option \<times> MachineSettings" where
  "apply_changed_settings [] ms = (None, ms)"
| "apply_changed_settings ((k, v) # kvs) ms =
     (case getSetting ms k of
        Inl e \<Rightarrow> (Some e, ms)
      | Inr None \<Rightarrow> apply_changed_settings kvs ms
      | Inr (Some s) \<Rightarrow> apply_changed_settings kvs (store_setting k (Setting_setValue v s) ms))"

text \<open>
  The result is the exception raised, if any, and the state the call leaves behind. A
  profile object is true in a condition; \<open>None\<close> is not.
\<close>

definition setActiveProfile ::
  "Profile option \<Rightarrow> MachineSettings \<Rightarrow> error option \<times> MachineSettings" where
  "setActiveProfile profile ms =
     (let ms1 = (if active_profile ms \<noteq> None then ms\<lparr>onSettingChanged_connected := False\<rparr> else ms)
      in case profile of
           None \<Rightarrow> (None, ms1\<lparr>active_profile := None\<rparr>)
         | Some p \<Rightarrow>
             (case apply_changed_settings (changed_settings p) (reset_to_default ms1) of
                (Some e, ms2) \<Rightarrow> (Some e, ms2)
              | (None, ms2) \<Rightarrow>
                  (None, ms2\<lparr>onSettingChanged_connected := True, active_profile := Some p\<rparr>)))"

section \<open>Loading a definition\<close>

text \<open>\<^verbatim>\<open>os.path.basename\<close> and \<^verbatim>\<open>os.path.dirname\<close> of \<^verbatim>\<open>posixpath\<close>.\<close>

definition basename :: "string \<Rightarrow> string" where
  "basename p = rev (takeWhile (\<lambda>c. c \<noteq> CHR ''/'') (rev p))"

definition dirname :: "string \<Rightarrow> string" where
  "dirname p =
     (let head = rev (dropWhile (\<lambda>c. c \<noteq> CHR ''/'') (rev p))
      in if head \<noteq> [] \<and> \<not> list_all (\<lambda>c. c = CHR ''/'') head
         then rev (dropWhile (\<lambda>c. c = CHR ''/'') (rev head))
         else head)"

text \<open>
  Python's \<^verbatim>\<open>v == i\<close> for a value read from JSON and an integer: numbers compare by
  value, and \<^verbatim>\<open>True\<close> and \<^verbatim>\<open>False\<close> are the integers 1 and 0.
\<close>

definition py_eq_int :: "jvalue \<Rightarrow> int \<Rightarrow> bool" where
  "py_eq_int v i =
     (case v of
        JInt n \<Rightarrow> n = i
      | JBool b \<Rightarrow> (if b then 1 else 0) = i
      | JFloat r \<Rightarrow> r = of_int i
      | _ \<Rightarrow> False)"

text \<open>\<^verbatim>\<open>str(data["version"])\<close>, for a value that passed the comparison with the version 1.\<close>

definition str_version :: "jvalue \<Rightarrow> string" where
  "str_version v = (case v of JBool b \<Rightarrow> ''True'' | JFloat r \<Rightarrow> ''1.0'' | _ \<Rightarrow> ''1'')"

text \<open>
  \<^verbatim>\<open>if name in data: for key, value in data[name].items(): ...\<close>: the pairs to run through.
  A section that is not an object has no \<^verbatim>\<open>items\<close>.
\<close>

definition section_items :: "jobject \<Rightarrow> string \<Rightarrow> error + (string \<times> jvalue) list" where
  "section_items data sect =
     (case map_of data sect of
        None \<Rightarrow> Inr []
      | Some (JObj kvs) \<Rightarrow> Inr kvs
      | Some _ \<Rightarrow> Inl AttributeError)"

fun for_each :: "('a \<Rightarrow> 's \<Rightarrow> error + 's) \<Rightarrow> 'a list \<Rightarrow> 's \<Rightarrow> error + 's" where
  "for_each step [] st = Inr st"
| "for_each step (x # xs) st =
     (case step x st of Inl e \<Rightarrow> Inl e | Inr st' \<Rightarrow> for_each step xs st')"

definition addSetting :: "Setting \<Rightarrow> MachineSettings \<Rightarrow> MachineSettings" where
  "addSetting s ms = ms\<lparr>machine_settings := machine_settings ms @ [s]\<rparr>"

definition addSettingsCategory :: "SettingsCategory \<Rightarrow> MachineSettings \<Rightarrow> MachineSettings" where
  "addSettingsCategory c ms = ms\<lparr>categories := categories ms @ [c]\<rparr>"

fun replace_category :: "string \<Rightarrow> SettingsCategory \<Rightarrow> SettingsCategory list \<Rightarrow> SettingsCategory list" where
  "replace_category k c' [] = []"
| "replace_category k c' (c # cs) =
     (if category_key c = k then c' # cs else c # replace_category k c' cs)"

text \<open>One entry of the \<^verbatim>\<open>machine_settings\<close> section: find the setting or create it, then fill it.\<close>

definition machine_setting_step :: "string \<times> jvalue \<Rightarrow> MachineSettings \<Rightarrow> error + MachineSettings" where
  "machine_setting_step kv ms =
     (case getSettingByKey ms (fst kv) of
        None \<Rightarrow>
          (case Setting_fillByDict (snd kv) (Setting_new (fst kv)) of
             Inl e \<Rightarrow> Inl e
           | Inr s' \<Rightarrow> Inr (addSetting s' ms))
      | Some s \<Rightarrow>
          (case Setting_fillByDict (snd kv) s of
             Inl e \<Rightarrow> Inl e
           | Inr s' \<Rightarrow> Inr (store_setting (fst kv) s' ms)))"

text \<open>One entry of the \<^verbatim>\<open>categories\<close> section: find the category or create it, then fill it.\<close>

definition category_step :: "string \<times> jvalue \<Rightarrow> MachineSettings \<Rightarrow> error + MachineSettings" where
  "category_step kv ms =
     (case getSettingsCategory ms (fst kv) of
        None \<Rightarrow>
          (case SettingsCategory_fillByDict (snd kv) (SettingsCategory_new (fst kv)) of
             Inl e \<Rightarrow> Inl e
           | Inr c' \<Rightarrow> Inr (addSettingsCategory c' ms))
      | Some c \<Rightarrow>
          (case SettingsCategory_fillByDict (snd kv) c of
             Inl e \<Rightarrow> Inl e
           | Inr c' \<Rightarrow> Inr (ms\<lparr>categories := replace_category (fst kv) c' (categories ms)\<rparr>)))"

text \<open>One entry of the \<^verbatim>\<open>overrides\<close> section: a key with no setting is passed over.\<close>

definition override_step :: "string \<times> jvalue \<Rightarrow> MachineSettings \<Rightarrow> error + MachineSettings" where
  "override_step kv ms =
     (case getSettingByKey ms (fst kv) of
        None \<Rightarrow> Inr ms
      | Some s \<Rightarrow>
          (case Setting_fillByDict (snd kv) s of
             Inl e \<Rightarrow> Inl e
           | Inr s' \<Rightarrow> Inr (store_setting (fst kv) s' ms)))"

definition run_section ::
  "(string \<times> jvalue \<Rightarrow> MachineSettings \<Rightarrow> error + MachineSettings) \<Rightarrow> jobject \<Rightarrow> string \<Rightarrow>
   MachineSettings \<Rightarrow> error + MachineSettings" where
  "run_section step data sect ms =
     (case section_items data sect of
        Inl e \<Rightarrow> Inl e
      | Inr kvs \<Rightarrow> for_each step kvs ms)"

text \<open>
  The three sections, in the order \<^verbatim>\<open>loadSettingsFromFile\<close> reads them: the two that
  declare settings (lines 103-117), then the overrides (lines 119-125).
\<close>

definition load_declared :: "jobject \<Rightarrow> MachineSettings \<Rightarrow> error + MachineSettings" where
  "load_declared data ms =
     (case run_section machine_setting_step data ''machine_settings'' ms of
        Inl e \<Rightarrow> Inl e
      | Inr ms1 \<Rightarrow> run_section category_step data ''categories'' ms1)"

definition load_sections :: "jobject \<Rightarrow> MachineSettings \<Rightarrow> error + MachineSettings" where
  "load_sections data ms =
     (case load_declared data ms of
        Inl e \<Rightarrow> Inl e
      | Inr ms2 \<Rightarrow> run_section override_step data ''overrides'' ms2)"

text \<open>The scalar fields, each kept as it was when the file does not give it.\<close>

definition load_header :: "jobject \<Rightarrow> string \<Rightarrow> MachineSettings \<Rightarrow> MachineSettings" where
  "load_header data file_name ms =
     ms\<lparr>i18n_catalog := Some (basename file_name),
        json_file := file_name,
        type_id := (case map_of data ''id'' of Some v \<Rightarrow> v | None \<Rightarrow> type_id ms),
        type_name := (case map_of data ''name'' of Some v \<Rightarrow> v | None \<Rightarrow> type_name ms),
        platform_mesh := (case map_of data ''platform'' of Some v \<Rightarrow> v | None \<Rightarrow> platform_mesh ms),
        platform_texture :=
          (case map_of data ''platform_texture'' of Some v \<Rightarrow> v | None \<Rightarrow> platform_texture ms),
        type_version :=
          (case map_of data ''version'' of Some v \<Rightarrow> str_version v | None \<Rightarrow> type_version ms),
        icon := (case map_of data ''icon'' of Some v \<Rightarrow> v | None \<Rightarrow> icon ms)\<rparr>"

text \<open>
  The files are the parsed documents, each an object, by path; a path with no document
  cannot be opened. The parent of an \<^verbatim>\<open>inherits\<close> field is loaded by a nested call into a
  fresh instance; \<open>fuel\<close> is the depth of calls the interpreter still allows, and a chain
  of parents deeper than that ends in \<^verbatim>\<open>RecursionError\<close>. Wiring the signals and emitting
  \<^verbatim>\<open>settingsLoaded\<close> at the end change nothing of the instance.
\<close>

fun loadSettingsFromFile ::
  "nat \<Rightarrow> (string \<times> jobject) list \<Rightarrow> string \<Rightarrow> MachineSettings \<Rightarrow> error + MachineSettings" where
  "loadSettingsFromFile 0 fs file_name ms = Inl RecursionError"
| "loadSettingsFromFile (Suc fuel) fs file_name ms =
     (case map_of fs file_name of
        None \<Rightarrow> Inl FileNotFoundError
      | Some data \<Rightarrow>
          if map_of data ''id'' = None \<or> map_of data ''name'' = None
          then Inl (InvalidFileError file_name)
          else if (case map_of data ''version'' of
                     None \<Rightarrow> True
                   | Some v \<Rightarrow> \<not> py_eq_int v MachineDefinitionVersion)
          then Inl (InvalidVersionError file_name)
          else
            (case map_of data ''inherits'' of
               None \<Rightarrow> load_sections data (load_header data file_name ms)
             | Some (JStr parent) \<Rightarrow>
                 (case loadSettingsFromFile fuel fs (dirname file_name @ ''/'' @ parent)
                         MachineSettings_init of
                    Inl e \<Rightarrow> Inl e
                  | Inr inherits_from \<Rightarrow>
                      load_sections data
                        ((load_header data file_name ms)
                           \<lparr>machine_settings := machine_settings inherits_from,
                            categories := categories inherits_from\<rparr>))
             | Some _ \<Rightarrow> Inl TypeError))"



section \<open>Instance files\<close>










definition digit_of :: "char \<Rightarrow> nat option" where
  "digit_of c =
     (let n = (of_char c :: nat) in if 48 \<le> n \<and> n \<le> 57 then Some (n - 48) else None)"

fun digits_value :: "string \<Rightarrow> nat \<Rightarrow> nat option"
  and digits_more :: "string \<Rightarrow> nat \<Rightarrow> nat option" where
  "digits_value [] acc = None"
| "digits_value (c # cs) acc =
     (case digit_of c of None \<Rightarrow> None | Some d \<Rightarrow> digits_more cs (10 * acc + d))"
| "digits_more [] acc = Some acc"
| "digits_more (c # cs) acc =
     (if c = CHR ''_'' then digits_value cs acc
      else case digit_of c of None \<Rightarrow> None | Some d \<Rightarrow> digits_more cs (10 * acc + d))"





section \<open>The setting keys a definition names\<close>






section \<open>Two definition files\<close>




definition base_machine :: MachineSettings where
  "base_machine =
     MachineSettings_init
       \<lparr>categories :=
          [\<lparr>category_key = ''quality'', category_fields = [(''label'', JStr ''Quality'')],
            category_settings =
              [\<lparr>setting_key = ''layer_height'', setting_fields = [(''default'', JFloat (1 / 5))],
                setting_value = JNull\<rparr>,
               \<lparr>setting_key = ''wall_count'', setting_fields = [(''default'', JInt 2)],
                setting_value = JNull\<rparr>]\<rparr>],
        type_name := JStr ''Base'', type_id := JStr ''base'', type_version := ''1'',
        json_file := ''/defs/base.json'',
        machine_settings :=
          [\<lparr>setting_key = ''machine_width'', setting_fields = [(''default'', JInt 200)],
            setting_value = JNull\<rparr>],
        i18n_catalog := Some ''base.json''\<rparr>"


text \<open>
  The base machine after the user has set a machine-level and a categorized setting, two
  profiles that store nothing, and a profile left over from an older definition: it
  stores a key the machine has and a key it does not have.
\<close>

definition tuned_machine :: MachineSettings where
  "tuned_machine =
     setSettingValueByKey (\<lambda>s v. True) ''wall_count'' (JInt 9)
       (setSettingValueByKey (\<lambda>s v. True) ''machine_width'' (JInt 150) base_machine)"

definition profile_one :: Profile where
  "profile_one = \<lparr>profile_name = ''one'', changed_settings = []\<rparr>"

definition profile_two :: Profile where
  "profile_two = \<lparr>profile_name = ''two'', changed_settings = []\<rparr>"

definition stale_profile :: Profile where
  "stale_profile =
     \<lparr>profile_name = ''stale'',
      changed_settings = [(''wall_count'', JInt 3), (''removed_setting'', JInt 1)]\<rparr>"

text \<open>
  A definition with an unsupported version that also lacks its \<^verbatim>\<open>name\<close>, and one that has
  both required fields.
\<close>

definition nameless_v2_files :: "(string \<times> jobject) list" where
  "nameless_v2_files = [(''/defs/m.json'', [(''id'', JStr ''m''), (''version'', JInt 2)])]"

definition v2_files :: "(string \<times> jobject) list" where
  "v2_files =
     [(''/defs/m.json'', [(''id'', JStr ''m''), (''name'', JStr ''M''), (''version'', JInt 2)])]"











section \<open>The default a chain of definitions assigns\<close>














section \<open>Lookups\<close>

lemma first_setting_Some:
  "first_setting ss k = Some s \<Longrightarrow> s \<in> set ss \<and> setting_key s = k"
  by (induction ss) (auto simp: Setting_getSettingByKey_def split: if_splits)

lemma first_setting_None_iff:
  "first_setting ss k = None \<longleftrightarrow> k \<notin> setting_key ` set ss"
  by (induction ss) (auto simp: Setting_getSettingByKey_def)

lemma categories_setting_Some:
  "categories_setting cs k = Some s \<Longrightarrow>
     s \<in> set (concat (map category_settings cs)) \<and> setting_key s = k"
  by (induction cs)
     (auto simp: SettingsCategory_getSettingByKey_def split: option.splits
           dest: first_setting_Some)

lemma categories_setting_None_iff:
  "categories_setting cs k = None \<longleftrightarrow> k \<notin> setting_key ` set (concat (map category_settings cs))"
  by (induction cs)
     (auto simp: SettingsCategory_getSettingByKey_def first_setting_None_iff image_Un
           split: option.splits dest: first_setting_Some)

lemma getSettingsCategory_loop_Some:
  "getSettingsCategory_loop cs k = Some c \<Longrightarrow> c \<in> set cs \<and> category_key c = k"
  by (induction cs) (auto split: if_splits)

lemma getSettingsCategory_loop_None_iff:
  "getSettingsCategory_loop cs k = None \<longleftrightarrow> k \<notin> category_key ` set cs"
  by (induction cs) auto

lemma all_settings_include_machine:
  "getAllSettings ms True False =
     machine_settings ms @ concat (map category_settings (categories ms))"
  by (simp add: getAllSettings_def SettingsCategory_getAllSettings_def[abs_def])

lemma all_settings_default:
  "getAllSettings ms False False = concat (map category_settings (categories ms))"
  by (simp add: getAllSettings_def SettingsCategory_getAllSettings_def[abs_def])

text \<open>
  Claim C8. \<open>getSettingByKey\<close> and \<open>getSettingsCategory\<close> are total: for every machine and
  every key each returns a result and raises nothing. What \<open>getSettingByKey\<close> returns is a
  setting of the machine with that key when the machine has one, and \<open>None\<close> exactly when
  no setting of the machine, categorized or machine-level, has the key; what
  \<open>getSettingsCategory\<close> returns is a category of the machine with that key when there is
  one, and \<open>None\<close> exactly when no category has the key.
\<close>

theorem lookups_return_match_or_none:
  "(case getSettingByKey ms k of
      Some s \<Rightarrow> setting_key s = k \<and> s \<in> set (getAllSettings ms True False)
    | None \<Rightarrow> k \<notin> setting_key ` set (getAllSettings ms True False)) \<and>
   (case getSettingsCategory ms k of
      Some c \<Rightarrow> category_key c = k \<and> c \<in> set (categories ms)
    | None \<Rightarrow> k \<notin> category_key ` set (categories ms))"
proof -
  have cat: "case getSettingsCategory ms k of
      Some c \<Rightarrow> category_key c = k \<and> c \<in> set (categories ms)
    | None \<Rightarrow> k \<notin> category_key ` set (categories ms)"
    by (auto simp: getSettingsCategory_def getSettingsCategory_loop_None_iff
             split: option.splits dest: getSettingsCategory_loop_Some)
  have st: "case getSettingByKey ms k of
      Some s \<Rightarrow> setting_key s = k \<and> s \<in> set (getAllSettings ms True False)
    | None \<Rightarrow> k \<notin> setting_key ` set (getAllSettings ms True False)"
  proof (cases "categories_setting (categories ms) k")
    case None
    then show ?thesis
      using categories_setting_None_iff[of "categories ms" k]
      by (auto simp: getSettingByKey_def all_settings_include_machine first_setting_None_iff image_Un
               split: option.splits dest: first_setting_Some)
  next
    case (Some s)
    then show ?thesis
      using categories_setting_Some[OF Some]
      by (auto simp: getSettingByKey_def all_settings_include_machine)
  qed
  from st cat show ?thesis by blast
qed

theorem lookups_return_match_or_none_witness:
  "map_option setting_key (getSettingByKey base_machine ''wall_count'') = Some ''wall_count'' \<and>
   getSettingByKey base_machine ''nozzle_size'' = None \<and>
   map_option category_key (getSettingsCategory base_machine ''quality'') = Some ''quality'' \<and>
   getSettingsCategory base_machine ''speed'' = None"
proof -
  have a: "getSettingByKey base_machine ''wall_count'' \<noteq> None" by code_simp
  have b: "getSettingByKey base_machine ''nozzle_size'' = None" by code_simp
  have c: "getSettingsCategory base_machine ''quality'' \<noteq> None" by code_simp
  have d: "getSettingsCategory base_machine ''speed'' = None" by code_simp
  show ?thesis
    using a b c d
      lookups_return_match_or_none[where ms = base_machine and k = "''wall_count''"]
      lookups_return_match_or_none[where ms = base_machine and k = "''quality''"]
    by (auto split: option.splits)
qed

text \<open>
  Claim C10. When no setting of the machine has the key, \<open>setSettingValueByKey\<close> leaves the
  whole state of the machine, the active profile included, as it was and
  \<open>getSettingValueByKey\<close> returns \<^verbatim>\<open>None\<close>; both are total, so neither raises.
\<close>

theorem missing_key_is_noop:
  "getSettingByKey ms k = None \<Longrightarrow>
     setSettingValueByKey notifies k v ms = ms \<and> getSettingValueByKey ms k = JNull"
  by (simp add: setSettingValueByKey_def getSettingValueByKey_def)

theorem missing_key_is_noop_witness:
  "getSettingByKey base_machine ''nozzle_size'' = None \<and>
   setSettingValueByKey (\<lambda>s v. True) ''nozzle_size'' (JInt 3) base_machine = base_machine \<and>
   getSettingValueByKey base_machine ''nozzle_size'' = JNull"
proof -
  have h: "getSettingByKey base_machine ''nozzle_size'' = None" by code_simp
  show ?thesis
    using h missing_key_is_noop[OF h, where notifies = "\<lambda>s v. True" and v = "JInt 3"] by simp
qed

section \<open>Scanning for errors and warnings\<close>

lemma hasErrorValue_loop_iff:
  "hasErrorValue_loop validate ss \<longleftrightarrow>
     (\<exists>s \<in> set ss. validate s = min_value_error \<or> validate s = max_value_error)"
  by (induction ss) (auto simp: Let_def)

lemma hasWarningValue_loop_iff:
  "hasWarningValue_loop validate ss \<longleftrightarrow>
     (\<exists>s \<in> set ss. validate s = min_value_warning \<or> validate s = max_value_warning)"
  by (induction ss) (auto simp: Let_def)

text \<open>
  Claim C6. For every validator, \<open>hasErrorValue\<close> is true exactly when some setting of
  \<open>getAllSettings()\<close> validates to the min-value or the max-value error; a freshly
  constructed machine has no such setting, and \<open>hasErrorValue\<close> is false on it.
\<close>

theorem hasErrorValue_iff:
  "(hasErrorValue validate ms \<longleftrightarrow>
      (\<exists>s \<in> set (getAllSettings ms False False).
         validate s = min_value_error \<or> validate s = max_value_error)) \<and>
   hasErrorValue validate MachineSettings_init = False"
  by (simp add: hasErrorValue_def hasErrorValue_loop_iff all_settings_default MachineSettings_init_def)

theorem hasErrorValue_iff_witness:
  "hasErrorValue (\<lambda>s. if Setting_getValue s = JInt 9 then max_value_error else success)
     tuned_machine \<and>
   \<not> hasErrorValue (\<lambda>s. if Setting_getValue s = JInt 9 then max_value_error else success)
     base_machine"
proof -
  let ?v = "\<lambda>s. if Setting_getValue s = JInt 9 then max_value_error else success"
  have a: "\<exists>s \<in> set (getAllSettings tuned_machine False False).
             ?v s = min_value_error \<or> ?v s = max_value_error"
    by code_simp
  have b: "\<not> (\<exists>s \<in> set (getAllSettings base_machine False False).
             ?v s = min_value_error \<or> ?v s = max_value_error)"
    by code_simp
  show ?thesis
    using a b
      hasErrorValue_iff[where validate = ?v and ms = tuned_machine]
      hasErrorValue_iff[where validate = ?v and ms = base_machine]
    by blast
qed

text \<open>
  Claim C9. \<open>hasErrorValue\<close> and \<open>hasWarningValue\<close> read the settings of the categories
  only: whatever the machine-level settings are replaced by, both give the same answer,
  so a machine-level setting in an error or a warning state never makes either true.
\<close>

theorem scans_ignore_machine_settings:
  "hasErrorValue validate (ms\<lparr>machine_settings := xs\<rparr>) = hasErrorValue validate ms \<and>
   hasWarningValue validate (ms\<lparr>machine_settings := xs\<rparr>) = hasWarningValue validate ms"
  by (simp add: hasErrorValue_def hasWarningValue_def all_settings_default)

theorem scans_ignore_machine_settings_witness:
  "hasErrorValue (\<lambda>s. max_value_error)
     (MachineSettings_init\<lparr>machine_settings := [Setting_new ''machine_width'']\<rparr>) = False \<and>
   hasWarningValue (\<lambda>s. min_value_warning)
     (MachineSettings_init\<lparr>machine_settings := [Setting_new ''machine_width'']\<rparr>) = False"
proof -
  have e: "hasErrorValue (\<lambda>s. max_value_error) MachineSettings_init = False"
    by (simp add: hasErrorValue_def all_settings_default MachineSettings_init_def)
  have w: "hasWarningValue (\<lambda>s. min_value_warning) MachineSettings_init = False"
    by (simp add: hasWarningValue_def all_settings_default MachineSettings_init_def)
  show ?thesis
    using e w
      scans_ignore_machine_settings[where validate = "\<lambda>s. max_value_error"
        and ms = MachineSettings_init and xs = "[Setting_new ''machine_width'']"]
      scans_ignore_machine_settings[where validate = "\<lambda>s. min_value_warning"
        and ms = MachineSettings_init and xs = "[Setting_new ''machine_width'']"]
    by simp
qed

section \<open>The version check\<close>

text \<open>
  Claim C3, as the code has it. The required fields are checked before the version. A
  definition that lacks \<^verbatim>\<open>id\<close> or \<^verbatim>\<open>name\<close> fails with \<open>InvalidFileError\<close>, whatever its version.
  A definition that has both and whose \<^verbatim>\<open>version\<close> is absent or does not compare equal to
  the supported version fails with \<open>InvalidVersionError\<close>, whatever else it holds and
  whatever the instance was before.
\<close>

theorem unsupported_version_raises:
  "map_of fs file_name = Some data \<Longrightarrow>
   ((map_of data ''id'' = None \<or> map_of data ''name'' = None) \<longrightarrow>
      loadSettingsFromFile (Suc fuel) fs file_name ms = Inl (InvalidFileError file_name)) \<and>
   (map_of data ''id'' \<noteq> None \<and> map_of data ''name'' \<noteq> None \<and>
    (\<forall>v. map_of data ''version'' = Some v \<longrightarrow> \<not> py_eq_int v MachineDefinitionVersion) \<longrightarrow>
      loadSettingsFromFile (Suc fuel) fs file_name ms = Inl (InvalidVersionError file_name))"
  by (auto split: option.splits)

theorem unsupported_version_raises_witness:
  "loadSettingsFromFile 1 v2_files ''/defs/m.json'' MachineSettings_init =
     Inl (InvalidVersionError ''/defs/m.json'') \<and>
   loadSettingsFromFile 1 nameless_v2_files ''/defs/m.json'' MachineSettings_init =
     Inl (InvalidFileError ''/defs/m.json'')"
proof -
  have a: "map_of v2_files ''/defs/m.json'' =
             Some [(''id'', JStr ''m''), (''name'', JStr ''M''), (''version'', JInt 2)]"
    by (simp add: v2_files_def)
  have b: "map_of nameless_v2_files ''/defs/m.json'' =
             Some [(''id'', JStr ''m''), (''version'', JInt 2)]"
    by (simp add: nameless_v2_files_def)
  show ?thesis
    using unsupported_version_raises[OF a, where fuel = 0 and ms = MachineSettings_init]
      unsupported_version_raises[OF b, where fuel = 0 and ms = MachineSettings_init]
    by (simp add: py_eq_int_def MachineDefinitionVersion_def)
qed

text \<open>
  As stated, claim C3 also covers a definition that lacks \<^verbatim>\<open>id\<close> or \<^verbatim>\<open>name\<close>: with version
  2 and no \<^verbatim>\<open>name\<close>, loading fails with \<open>InvalidFileError\<close>, not \<open>InvalidVersionError\<close>.
\<close>

theorem missing_name_wins_counterexample:
  "loadSettingsFromFile 1 nameless_v2_files ''/defs/m.json'' MachineSettings_init =
     Inl (InvalidFileError ''/defs/m.json'') \<and>
   loadSettingsFromFile 1 nameless_v2_files ''/defs/m.json'' MachineSettings_init \<noteq>
     Inl (InvalidVersionError ''/defs/m.json'')"
  by (simp add: nameless_v2_files_def)

section \<open>Activating a profile\<close>

text \<open>
  Claim C2 says that the stored values of the keys the machine has are applied and the
  others passed over, without an error. The code at the stale profile, which stores the
  known key \<open>wall_count\<close> (default 2, stored 3) and an unknown one: the call raises
  \<open>AttributeError\<close>, and \<open>wall_count\<close> is left at its default.
\<close>

theorem stale_profile_raises:
  "fst (setActiveProfile (Some stale_profile) base_machine) = Some AttributeError \<and>
   getSettingValueByKey (snd (setActiveProfile (Some stale_profile) base_machine)) ''wall_count''
     = JInt 2"
  by code_simp

lemma snd_apply_changed_settings: "snd (apply_changed_settings kvs ms) = ms"
  by (cases kvs) (auto simp: getSetting_def)

lemma categories_setActiveProfile_Some:
  "categories (snd (setActiveProfile (Some p) ms)) = map reset_category (categories ms)"
proof -
  obtain e ms2 where a: "apply_changed_settings (changed_settings p)
      (reset_to_default (if active_profile ms \<noteq> None then ms\<lparr>onSettingChanged_connected := False\<rparr> else ms)) = (e, ms2)"
    by (cases "apply_changed_settings (changed_settings p)
      (reset_to_default (if active_profile ms \<noteq> None then ms\<lparr>onSettingChanged_connected := False\<rparr> else ms))") 
  have "ms2 = reset_to_default (if active_profile ms \<noteq> None then ms\<lparr>onSettingChanged_connected := False\<rparr> else ms)"
    using snd_apply_changed_settings[of "changed_settings p" "reset_to_default (if active_profile ms \<noteq> None then ms\<lparr>onSettingChanged_connected := False\<rparr> else ms)"] a by simp
  then have "categories ms2 = map reset_category (categories ms)"
    by (simp add: reset_to_default_def)
  then show ?thesis using a
    by (cases e) (simp_all add: setActiveProfile_def Let_def)
qed

lemma machine_settings_setActiveProfile_Some:
  "machine_settings (snd (setActiveProfile (Some p) ms)) = machine_settings ms"
proof -
  let ?start = "reset_to_default
      (if active_profile ms \<noteq> None then ms\<lparr>onSettingChanged_connected := False\<rparr> else ms)"
  obtain e ms2 where a: "apply_changed_settings (changed_settings p) ?start = (e, ms2)"
    by (cases "apply_changed_settings (changed_settings p) ?start")
  have "ms2 = ?start"
    using snd_apply_changed_settings[of "changed_settings p" ?start] a by simp
  then have "machine_settings ms2 = machine_settings ms"
    by (simp add: reset_to_default_def)
  then show ?thesis using a
    by (cases e) (simp_all add: setActiveProfile_def Let_def)
qed

lemma reset_category_at_default:
  "s \<in> set (category_settings (reset_category c)) \<Longrightarrow> Setting_getValue s = Setting_getDefaultValue s"
  by (auto simp: reset_category_def Setting_getValue_def Setting_setValue_def Setting_getDefaultValue_def)

text \<open>
  Claim C1, as the code has it. After \<open>setActiveProfile\<close> with a profile, every setting of
  \<open>getAllSettings()\<close>, that is every categorized setting, whose key the profile does not
  store has its current value equal to its default, and the machine-level settings whose
  key the profile does not store are what they were before the call: they are not reset.
  \<open>setActiveProfile\<close> with no profile resets nothing and leaves every setting as it was.
\<close>

theorem activation_resets_categorized:
  "(\<forall>s \<in> set (getAllSettings (snd (setActiveProfile (Some p) ms)) False False).
      setting_key s \<notin> fst ` set (changed_settings p) \<longrightarrow>
      Setting_getValue s = Setting_getDefaultValue s) \<and>
   filter (\<lambda>s. setting_key s \<notin> fst ` set (changed_settings p))
       (machine_settings (snd (setActiveProfile (Some p) ms))) =
     filter (\<lambda>s. setting_key s \<notin> fst ` set (changed_settings p)) (machine_settings ms) \<and>
   getAllSettings (snd (setActiveProfile None ms)) True False = getAllSettings ms True False"
proof -
  have a: "\<forall>s \<in> set (getAllSettings (snd (setActiveProfile (Some p) ms)) False False).
      setting_key s \<notin> fst ` set (changed_settings p) \<longrightarrow>
      Setting_getValue s = Setting_getDefaultValue s"
    by (auto simp: all_settings_default categories_setActiveProfile_Some
             dest: reset_category_at_default)
  have b: "getAllSettings (snd (setActiveProfile None ms)) True False = getAllSettings ms True False"
    by (simp add: all_settings_include_machine setActiveProfile_def Let_def)
  have c: "machine_settings (snd (setActiveProfile (Some p) ms)) = machine_settings ms"
    by (rule machine_settings_setActiveProfile_Some)
  from a b c show ?thesis by simp
qed

theorem activation_resets_categorized_witness:
  "\<exists>s. s \<in> set (getAllSettings (snd (setActiveProfile (Some stale_profile) tuned_machine)) False False) \<and>
       setting_key s = ''layer_height'' \<and>
       setting_key s \<notin> fst ` set (changed_settings stale_profile) \<and>
       Setting_getValue s = Setting_getDefaultValue s"
proof -
  let ?s = "\<lparr>setting_key = ''layer_height'', setting_fields = [(''default'', JFloat (1 / 5))],
             setting_value = JFloat (1 / 5)\<rparr>"
  have m: "?s \<in> set (getAllSettings (snd (setActiveProfile (Some stale_profile) tuned_machine)) False False)"
    by code_simp
  have k: "setting_key ?s \<notin> fst ` set (changed_settings stale_profile)"
    by (simp add: stale_profile_def)
  have "Setting_getValue ?s = Setting_getDefaultValue ?s"
    using activation_resets_categorized[where p = stale_profile and ms = tuned_machine] m k
    by blast
  with m k show ?thesis by (intro exI[of _ ?s]) simp
qed

text \<open>
  As stated, claim C1 covers the machine-level settings too. \<open>machine_width\<close> (default 200)
  was set to 150; after activating a profile that stores nothing it is still 150, and so
  it is after a second profile and then none.
\<close>

theorem machine_setting_not_reset_counterexample:
  "\<not> (\<forall>s \<in> set (getAllSettings (snd (setActiveProfile (Some profile_one) tuned_machine)) True False).
        setting_key s \<notin> fst ` set (changed_settings profile_one) \<longrightarrow>
        Setting_getValue s = Setting_getDefaultValue s) \<and>
   \<not> (\<forall>s \<in> set (getAllSettings
          (snd (setActiveProfile None
             (snd (setActiveProfile (Some profile_two)
                (snd (setActiveProfile (Some profile_one) tuned_machine))))))
          True False).
        Setting_getValue s = Setting_getDefaultValue s)"
proof -
  let ?w = "\<lparr>setting_key = ''machine_width'', setting_fields = [(''default'', JInt 200)],
             setting_value = JInt 150\<rparr>"
  have v: "Setting_getValue ?w \<noteq> Setting_getDefaultValue ?w"
    by (simp add: Setting_getValue_def Setting_getDefaultValue_def)
  have k: "setting_key ?w \<notin> fst ` set (changed_settings profile_one)"
    by (simp add: profile_one_def)
  have m1: "?w \<in> set (getAllSettings (snd (setActiveProfile (Some profile_one) tuned_machine)) True False)"
    by code_simp
  have m3: "?w \<in> set (getAllSettings
          (snd (setActiveProfile None
             (snd (setActiveProfile (Some profile_two)
                (snd (setActiveProfile (Some profile_one) tuned_machine))))))
          True False)"
    by code_simp
  from v k m1 m3 show ?thesis by blast
qed


section \<open>Saving and loading an instance\<close>














section \<open>Inheritance\<close>



subsection \<open>The keys a machine holds after each step\<close>




















subsection \<open>A lookup is not disturbed by steps on other keys\<close>


















section \<open>Overrides\<close>



















section \<open>The default an inherited setting has\<close>

subsection \<open>The default after a fragment is applied\<close>




subsection \<open>Lookups when the keys are distinct\<close>




subsection \<open>The setting a step writes\<close>












subsection \<open>Inside a category\<close>







subsection \<open>The list of keys\<close>











subsection \<open>A category step when the keys are distinct\<close>
















end
